theory Spec2Isabelle
  imports Complex_Main "HOL-Library.Sublist" "HOL-Library.AList"
begin

section \<open>Python values, exceptions and the schema classes\<close>

text \<open>
  The exceptions that can leave \<open>run\<close>. \<open>ValidationError\<close> is what pydantic raises from a
  model constructor, \<open>AttributeError\<close> what a failed attribute access raises,
  \<open>StageExecutionError\<close> stands for any exception raised inside \<open>crew.kickoff()\<close>.
\<close>

datatype py_error = ValidationError | AttributeError | StageExecutionError

text \<open>\<open>schemas.py\<close>: the two input models, field by field. An \<open>Optional[T]\<close> field is an option.\<close>

record ResearchTopic =
  topic :: string
  topic_context :: "string option"
  depth :: "string option"
  research_objective :: "string option"
  specific_focus :: "string option"

record InputSchema =
  research_topic :: ResearchTopic
  max_sources :: "int option"
  include_citations :: "bool option"

text \<open>
  Python values as far as this program handles them: the JSON-like builtins (dictionary keys
  are strings, as keyword expansion \<open>**inputs\<close> needs), instances of the two schema classes,
  and any other object, given by its data attributes.
\<close>

datatype pyval =
    PNone
  | PBool bool
  | PInt int
  | PStr string
  | PList "pyval list"
  | PDict "(string \<times> pyval) list"
  | PTopic ResearchTopic
  | PInput InputSchema
  | PObj "(string \<times> pyval) list"

type_synonym kwargs = "(string \<times> pyval) list"

text \<open>\<open>isinstance(v, dict)\<close>.\<close>

fun isinstance_dict :: "pyval \<Rightarrow> bool" where
  "isinstance_dict (PDict d) = True"
| "isinstance_dict v = False"

definition opt_str :: "string option \<Rightarrow> pyval" where
  "opt_str x = (case x of None \<Rightarrow> PNone | Some s \<Rightarrow> PStr s)"

definition opt_int :: "int option \<Rightarrow> pyval" where
  "opt_int x = (case x of None \<Rightarrow> PNone | Some n \<Rightarrow> PInt n)"

definition opt_bool :: "bool option \<Rightarrow> pyval" where
  "opt_bool x = (case x of None \<Rightarrow> PNone | Some b \<Rightarrow> PBool b)"

text \<open>
  Attribute access \<open>v.name\<close> for the data attributes this program reads
  (\<open>research_topic\<close>, \<open>topic\<close>, \<open>research_objective\<close>, \<open>specific_focus\<close>): the builtins have
  none of them, a schema instance has its declared fields, another object what it carries.
\<close>

definition topic_attr :: "ResearchTopic \<Rightarrow> string \<Rightarrow> py_error + pyval" where
  "topic_attr rt name =
     (if name = ''topic'' then Inr (PStr (topic rt))
      else if name = ''context'' then Inr (opt_str (topic_context rt))
      else if name = ''depth'' then Inr (opt_str (depth rt))
      else if name = ''research_objective'' then Inr (opt_str (research_objective rt))
      else if name = ''specific_focus'' then Inr (opt_str (specific_focus rt))
      else Inl AttributeError)"

definition input_attr :: "InputSchema \<Rightarrow> string \<Rightarrow> py_error + pyval" where
  "input_attr i name =
     (if name = ''research_topic'' then Inr (PTopic (research_topic i))
      else if name = ''max_sources'' then Inr (opt_int (max_sources i))
      else if name = ''include_citations'' then Inr (opt_bool (include_citations i))
      else Inl AttributeError)"

fun getattr :: "pyval \<Rightarrow> string \<Rightarrow> py_error + pyval" where
  "getattr (PTopic rt) name = topic_attr rt name"
| "getattr (PInput i) name = input_attr i name"
| "getattr (PObj attrs) name =
     (case map_of attrs name of None \<Rightarrow> Inl AttributeError | Some v \<Rightarrow> Inr v)"
| "getattr v name = Inl AttributeError"

section \<open>The collaborators outside the repository\<close>

text \<open>\<open>datetime.datetime.now()\<close> returns a calendar time.\<close>

record datetime =
  year :: nat
  month :: nat
  day :: nat
  hour :: nat
  minute :: nat
  second :: nat

text \<open>\<open>ChatOpenAI(model_name=..., temperature=...)\<close>.\<close>

record ChatOpenAI =
  model_name :: string
  temperature :: rat

datatype tool = SerperDevTool | FileReadTool | FileWriteTool

record Agent =
  role :: string
  goal :: string
  backstory :: string
  tools :: "tool list"
  llm :: ChatOpenAI
  verbose :: bool

text \<open>
  A \<open>Task\<close> of the crew library, a pydantic model; \<open>context\<close> is the list of upstream
  tasks, empty where the constructor call passes none.
\<close>

datatype Task = Task (description: string) (expected_output: string) (agent: Agent)
  (task_context: "Task list") (output_file: string)

text \<open>
  The constructor \<open>Task(description=..., expected_output=..., agent=..., context=...,
  output_file=...)\<close>. The field \<open>expected_output\<close> is required: a call that passes none
  raises \<open>ValidationError\<close>.
\<close>

definition Task_init ::
  "string \<Rightarrow> string option \<Rightarrow> Agent \<Rightarrow> Task list \<Rightarrow> string \<Rightarrow> py_error + Task" where
  "Task_init d eo a ctx f =
     (case eo of None \<Rightarrow> Inl ValidationError | Some e \<Rightarrow> Inr (Task d e a ctx f))"

datatype process = Sequential

record Crew =
  agents :: "Agent list"
  tasks :: "Task list"
  crew_verbose :: bool
  process :: process

text \<open>
  What \<open>crew.kickoff()\<close> returns: a \<open>CrewOutput\<close>, holding the raw text of the last task
  and the raw texts of all tasks (older releases of the library return the raw text alone).
\<close>

record CrewOutput =
  raw :: string
  tasks_output :: "string list"

text \<open>
  \<open>result.get(key, default)\<close>: a \<open>CrewOutput\<close> has no attribute \<open>get\<close> (nor has a string), so
  the call raises \<open>AttributeError\<close>.
\<close>

definition result_get :: "CrewOutput \<Rightarrow> string \<Rightarrow> pyval \<Rightarrow> py_error + pyval" where
  "result_get result key dflt = Inl AttributeError"

text \<open>
  Everything the program takes from outside itself:
  \<^item> pydantic's lax-mode coercion of a value that is not already of the field's type
    (\<open>None\<close> where it refuses);
  \<^item> \<open>str()\<close> of a container or object inside an f-string;
  \<^item> the clock: \<open>now n\<close> is what the \<open>n\<close>-th call of \<open>datetime.datetime.now()\<close> returns;
  \<^item> \<open>crew.kickoff()\<close>: \<open>None\<close> where it raises.
\<close>

record env =
  lax_str :: "pyval \<Rightarrow> string option"
  lax_int :: "pyval \<Rightarrow> int option"
  lax_bool :: "pyval \<Rightarrow> bool option"
  str_other :: "pyval \<Rightarrow> string"
  now :: "nat \<Rightarrow> datetime"
  kickoff :: "Crew \<Rightarrow> CrewOutput option"

text \<open>The deployment descriptor carried by the run input (\<open>naptha_sdk\<close>'s \<open>AgentRunInput\<close>).\<close>

record LLMConfig =
  model :: string
  config_temperature :: rat

record AgentConfig =
  llm_config :: LLMConfig

record AgentDeployment =
  agent_config :: AgentConfig

record AgentRunInput =
  inputs :: pyval
  agent_deployment :: AgentDeployment

section \<open>Validation: the constructors of the schema classes\<close>

text \<open>A value of the field's own type is taken as it is; anything else is left to lax mode.\<close>

definition validate_str :: "env \<Rightarrow> pyval \<Rightarrow> py_error + string" where
  "validate_str E v =
     (case v of PStr s \<Rightarrow> Inr s
      | _ \<Rightarrow> (case lax_str E v of Some s \<Rightarrow> Inr s | None \<Rightarrow> Inl ValidationError))"

definition validate_int :: "env \<Rightarrow> pyval \<Rightarrow> py_error + int" where
  "validate_int E v =
     (case v of PInt n \<Rightarrow> Inr n
      | _ \<Rightarrow> (case lax_int E v of Some n \<Rightarrow> Inr n | None \<Rightarrow> Inl ValidationError))"

definition validate_bool :: "env \<Rightarrow> pyval \<Rightarrow> py_error + bool" where
  "validate_bool E v =
     (case v of PBool b \<Rightarrow> Inr b
      | _ \<Rightarrow> (case lax_bool E v of Some b \<Rightarrow> Inr b | None \<Rightarrow> Inl ValidationError))"

text \<open>\<open>Optional[T]\<close>: \<open>None\<close> is accepted, any other value is validated as a \<open>T\<close>.\<close>

definition validate_optional :: "(pyval \<Rightarrow> py_error + 'a) \<Rightarrow> pyval \<Rightarrow> py_error + 'a option" where
  "validate_optional f v =
     (case v of PNone \<Rightarrow> Inr None
      | _ \<Rightarrow> (case f v of Inl e \<Rightarrow> Inl e | Inr x \<Rightarrow> Inr (Some x)))"

text \<open>\<open>Field(...)\<close>: a required field. \<open>Field(d)\<close>: a field with default \<open>d\<close>, used unvalidated.\<close>

definition field_required :: "kwargs \<Rightarrow> string \<Rightarrow> (pyval \<Rightarrow> py_error + 'a) \<Rightarrow> py_error + 'a" where
  "field_required kw name f =
     (case map_of kw name of None \<Rightarrow> Inl ValidationError | Some v \<Rightarrow> f v)"

definition field_default :: "kwargs \<Rightarrow> string \<Rightarrow> 'a \<Rightarrow> (pyval \<Rightarrow> py_error + 'a) \<Rightarrow> py_error + 'a" where
  "field_default kw name d f =
     (case map_of kw name of None \<Rightarrow> Inr d | Some v \<Rightarrow> f v)"

text \<open>\<open>ResearchTopic(**kw)\<close>. Keys that name no field are ignored.\<close>

definition ResearchTopic_init :: "env \<Rightarrow> kwargs \<Rightarrow> py_error + ResearchTopic" where
  "ResearchTopic_init E kw =
     (case field_required kw ''topic'' (validate_str E) of Inl e \<Rightarrow> Inl e | Inr t \<Rightarrow>
     (case field_default kw ''context'' None (validate_optional (validate_str E)) of
        Inl e \<Rightarrow> Inl e | Inr c \<Rightarrow>
     (case field_default kw ''depth'' (Some ''comprehensive'')
             (validate_optional (validate_str E)) of
        Inl e \<Rightarrow> Inl e | Inr d \<Rightarrow>
     (case field_default kw ''research_objective'' None (validate_optional (validate_str E)) of
        Inl e \<Rightarrow> Inl e | Inr ro \<Rightarrow>
     (case field_default kw ''specific_focus'' None (validate_optional (validate_str E)) of
        Inl e \<Rightarrow> Inl e | Inr sf \<Rightarrow>
      Inr \<lparr>topic = t, topic_context = c, depth = d, research_objective = ro,
           specific_focus = sf\<rparr>)))))"

text \<open>
  A field of model type takes a dictionary, which it validates, or an instance of the
  model, which it keeps.
\<close>

definition validate_ResearchTopic :: "env \<Rightarrow> pyval \<Rightarrow> py_error + ResearchTopic" where
  "validate_ResearchTopic E v =
     (case v of PDict d \<Rightarrow> ResearchTopic_init E d
      | PTopic rt \<Rightarrow> Inr rt
      | _ \<Rightarrow> Inl ValidationError)"

text \<open>\<open>InputSchema(**kw)\<close>.\<close>

definition InputSchema_init :: "env \<Rightarrow> kwargs \<Rightarrow> py_error + InputSchema" where
  "InputSchema_init E kw =
     (case field_required kw ''research_topic'' (validate_ResearchTopic E) of
        Inl e \<Rightarrow> Inl e | Inr rt \<Rightarrow>
     (case field_default kw ''max_sources'' (Some 5) (validate_optional (validate_int E)) of
        Inl e \<Rightarrow> Inl e | Inr ms \<Rightarrow>
     (case field_default kw ''include_citations'' (Some True)
             (validate_optional (validate_bool E)) of
        Inl e \<Rightarrow> Inl e | Inr ic \<Rightarrow>
      Inr \<lparr>research_topic = rt, max_sources = ms, include_citations = ic\<rparr>)))"

section \<open>Rendering values and the timestamp\<close>

definition digit :: "nat \<Rightarrow> char" where
  "digit d = ''0123456789'' ! d"

text \<open>The decimal numeral of a natural number.\<close>

function dec :: "nat \<Rightarrow> string" where
  "dec n = (if n < 10 then [digit n] else dec (n div 10) @ [digit (n mod 10)])"
  by pat_completeness auto
termination
  by (relation "measure id") auto

declare dec.simps [simp del]

text \<open>
  What an f-string puts for \<open>{v}\<close>, that is \<open>str(v)\<close>: a string as it is, \<open>None\<close> as the
  word \<open>None\<close>, a truth value or an integer as Python prints it.
\<close>

fun py_str :: "env \<Rightarrow> pyval \<Rightarrow> string" where
  "py_str E PNone = ''None''"
| "py_str E (PBool b) = (if b then ''True'' else ''False'')"
| "py_str E (PInt n) = (if n < 0 then ''-'' @ dec (nat (- n)) else dec (nat n))"
| "py_str E (PStr s) = s"
| "py_str E v = str_other E v"

text \<open>A number in a field of at least \<open>w\<close> digits, filled with zeros on the left.\<close>

definition zfill :: "nat \<Rightarrow> string \<Rightarrow> string" where
  "zfill w s = replicate (w - length s) (CHR ''0'') @ s"

text \<open>
  \<open>t.strftime("%Y%m%d_%H%M%S")\<close>. The C library prints \<open>%Y\<close> as the year's numeral, without
  padding, and the other fields in two digits.
\<close>

definition strftime :: "datetime \<Rightarrow> string" where
  "strftime t =
     dec (year t) @ zfill 2 (dec (month t)) @ zfill 2 (dec (day t)) @ ''_'' @
     zfill 2 (dec (hour t)) @ zfill 2 (dec (minute t)) @ zfill 2 (dec (second t))"

section \<open>The state of a run\<close>

text \<open>
  What a run does besides returning, in the order it does it: the objects it constructs,
  the validation of the inputs, each reading of the clock, each task constructed, the call
  of \<open>crew.kickoff()\<close> (inside which the stages execute and their files are written) and the
  logging of a result that could not be parsed.
\<close>

datatype event =
    ToolCreated tool
  | LLMCreated ChatOpenAI
  | AgentCreated string
  | Validation
  | ClockRead
  | TaskCreated string
  | CrewCreated
  | Kickoff
  | ErrorLogged

record run_state =
  events :: "event list"
  clock_reads :: nat

definition init_state :: run_state where
  "init_state = \<lparr>events = [], clock_reads = 0\<rparr>"

definition emit :: "event \<Rightarrow> run_state \<Rightarrow> run_state" where
  "emit e s = s\<lparr>events := events s @ [e]\<rparr>"

section \<open>\<open>run.py\<close>: the class \<open>ResearcherAgent\<close>\<close>

record ResearcherAgent =
  module_run :: AgentRunInput
  self_llm_config :: LLMConfig
  search_tool :: tool
  file_read :: tool
  file_write :: tool
  keyword_researcher :: Agent
  search_analyst :: Agent
  insights_compiler :: Agent

definition setup_tools :: "run_state \<Rightarrow> (tool \<times> tool \<times> tool) \<times> run_state" where
  "setup_tools s =
     ((SerperDevTool, FileReadTool, FileWriteTool),
      emit (ToolCreated FileWriteTool) (emit (ToolCreated FileReadTool)
        (emit (ToolCreated SerperDevTool) s)))"

definition the_llm :: ChatOpenAI where
  "the_llm = \<lparr>model_name = ''gpt-4o'', temperature = 7 / 10\<rparr>"

definition setup_agents :: "tool \<Rightarrow> run_state \<Rightarrow> (Agent \<times> Agent \<times> Agent) \<times> run_state" where
  "setup_agents search s =
     (let llm = the_llm;
          s1 = emit (LLMCreated llm) s;
          kr = \<lparr>role = ''Expert Keyword Research Specialist'',
                goal = ''Analyze topics and identify the most effective search terms and phrases'',
                backstory =
                  ''Expert keyword research specialist with deep understanding of search behavior \<newline>'' @
                  ''                        and semantic analysis. Skilled at breaking down topics into relevant search terms.'',
                tools = [search], llm = llm, verbose = True\<rparr>;
          s2 = emit (AgentCreated (role kr)) s1;
          sa = \<lparr>role = ''Search Results Analyst'',
                goal = ''Evaluate and refine search queries based on initial results'',
                backstory =
                  ''Analytical expert specializing in evaluating search results and identifying \<newline>'' @
                  ''                        patterns in successful queries.'',
                tools = [search], llm = llm, verbose = True\<rparr>;
          s3 = emit (AgentCreated (role sa)) s2;
          ic = \<lparr>role = ''Research Insights Compiler'',
                goal = ''Synthesize findings and create structured recommendations'',
                backstory =
                  ''Research synthesis specialist who excels at organizing insights into clear, \<newline>'' @
                  ''                        actionable recommendations.'',
                tools = [search], llm = llm, verbose = True\<rparr>;
          s4 = emit (AgentCreated (role ic)) s3
      in ((kr, sa, ic), s4))"

text \<open>\<open>ResearcherAgent.__init__\<close>.\<close>

definition ResearcherAgent_init :: "AgentRunInput \<Rightarrow> run_state \<Rightarrow> ResearcherAgent \<times> run_state" where
  "ResearcherAgent_init mr s =
     (let cfg = llm_config (agent_config (agent_deployment mr));
          ((st, fr, fw), s1) = setup_tools s;
          ((kr, sa, ic), s2) = setup_agents st s1
      in (\<lparr>module_run = mr, self_llm_config = cfg, search_tool = st, file_read = fr,
           file_write = fw, keyword_researcher = kr, search_analyst = sa,
           insights_compiler = ic\<rparr>, s2))"

text \<open>The three descriptions; the first is the f-string, given what its three fields render to.\<close>

definition description_1 :: "string \<Rightarrow> string \<Rightarrow> string \<Rightarrow> string" where
  \<open>description_1 t ro sf =
     ''\<newline>'' @
     ''                Analyze the following topic and identify potential keywords and search phrases:\<newline>'' @
     ''                TOPIC: "'' @ t @ ''"\<newline>'' @
     ''                RESEARCH OBJECTIVE: "'' @ ro @ ''"\<newline>'' @
     ''                SPECIFIC FOCUS: "'' @ sf @ ''"\<newline>'' @
     ''                \<newline>'' @
     ''                1. Break down the topic into main concepts\<newline>'' @
     ''                2. Generate primary keywords for each concept\<newline>'' @
     ''                3. Identify related terms and synonyms\<newline>'' @
     ''                4. Consider different search intents\<newline>'' @
     ''                5. List at least 5 potential search phrases\<newline>'' @
     ''            ''\<close>

definition description_2 :: string where
  "description_2 =
     ''\<newline>'' @
     ''                Evaluate the effectiveness of the proposed keywords by analyzing search results:\<newline>'' @
     ''                1. Test each main keyword/phrase identified\<newline>'' @
     ''                2. Analyze the relevance of returned results\<newline>'' @
     ''                3. Identify gaps or irrelevant results\<newline>'' @
     ''                4. Suggest modifications to improve search accuracy\<newline>'' @
     ''            ''"

definition description_3 :: string where
  "description_3 =
     ''\<newline>'' @
     ''                Compile final keyword recommendations and search strategy:\<newline>'' @
     ''                1. Synthesize findings from keyword research and search analysis\<newline>'' @
     ''                2. Create a prioritized list of recommended search terms\<newline>'' @
     ''                3. Group related terms and phrases\<newline>'' @
     ''                4. Provide specific recommendations for different search objectives\<newline>'' @
     ''            ''"

text \<open>
  The f-string of the first description: it reads the three attributes of the topic in
  order, and the first one missing raises.
\<close>

definition task_1_description :: "env \<Rightarrow> pyval \<Rightarrow> py_error + string" where
  "task_1_description E rt =
     (case getattr rt ''topic'' of Inl e \<Rightarrow> Inl e | Inr t \<Rightarrow>
     (case getattr rt ''research_objective'' of Inl e \<Rightarrow> Inl e | Inr ro \<Rightarrow>
     (case getattr rt ''specific_focus'' of Inl e \<Rightarrow> Inl e | Inr sf \<Rightarrow>
        Inr (description_1 (py_str E t) (py_str E ro) (py_str E sf)))))"

text \<open>
  \<open>create_tasks\<close>. The clock is read once, first. Each of the three calls of \<open>Task\<close> has its
  arguments evaluated and is then made, with no \<open>expected_output\<close>; an exception of any of
  them leaves the function.
\<close>

definition create_tasks ::
  "env \<Rightarrow> ResearcherAgent \<Rightarrow> pyval \<Rightarrow> run_state \<Rightarrow> (py_error + Task list) \<times> run_state" where
  "create_tasks E self rt s =
     (let timestamp = strftime (now E (clock_reads s));
          s1 = emit ClockRead (s\<lparr>clock_reads := Suc (clock_reads s)\<rparr>)
      in case task_1_description E rt of Inl e \<Rightarrow> (Inl e, s1) | Inr d \<Rightarrow>
        (case Task_init d None (keyword_researcher self) []
                (''output-files/keyword_analysis_'' @ timestamp @ ''.md'') of
           Inl e \<Rightarrow> (Inl e, s1)
         | Inr task_1 \<Rightarrow>
        (case Task_init description_2 None (search_analyst self) [task_1]
                (''output-files/search_analysis_'' @ timestamp @ ''.md'') of
           Inl e \<Rightarrow> (Inl e, emit (TaskCreated (output_file task_1)) s1)
         | Inr task_2 \<Rightarrow>
        (case Task_init description_3 None (insights_compiler self) [task_2]
                (''output-files/final_recommendations_'' @ timestamp @ ''.md'') of
           Inl e \<Rightarrow>
             (Inl e, emit (TaskCreated (output_file task_2))
                       (emit (TaskCreated (output_file task_1)) s1))
         | Inr task_3 \<Rightarrow>
             (Inr [task_1, task_2, task_3],
              emit (TaskCreated (output_file task_3))
                (emit (TaskCreated (output_file task_2))
                   (emit (TaskCreated (output_file task_1)) s1)))))))"

text \<open>The body of the \<open>try\<close> in \<open>research\<close>: three calls of \<open>result.get\<close>, in order.\<close>

definition parse_results :: "CrewOutput \<Rightarrow> py_error + (string \<times> pyval) list" where
  "parse_results result =
     (case result_get result ''task_1'' (PDict []) of Inl e \<Rightarrow> Inl e | Inr ka \<Rightarrow>
     (case result_get result ''task_2'' (PDict []) of Inl e \<Rightarrow> Inl e | Inr sa \<Rightarrow>
     (case result_get result ''task_3'' (PDict []) of Inl e \<Rightarrow> Inl e | Inr fr \<Rightarrow>
        Inr [(''keyword_analysis'', ka), (''search_analysis'', sa),
             (''final_recommendations'', fr)])))"

text \<open>What the \<open>except\<close> branch returns.\<close>

definition empty_results :: "(string \<times> pyval) list" where
  "empty_results =
     [(''keyword_analysis'', PDict []), (''search_analysis'', PDict []),
      (''final_recommendations'', PDict [])]"

text \<open>
  The \<open>try\<close> statement of \<open>research\<close>: the parsed results, or, on any exception, the logging
  of the error and the empty results.
\<close>

definition shape_results :: "CrewOutput \<Rightarrow> run_state \<Rightarrow> (string \<times> pyval) list \<times> run_state" where
  "shape_results result s =
     (case parse_results result of
        Inr research_results \<Rightarrow> (research_results, s)
      | Inl e \<Rightarrow> (empty_results, emit ErrorLogged s))"

text \<open>\<open>research\<close>. An exception of \<open>create_tasks\<close> or of \<open>kickoff\<close> is outside the \<open>try\<close>.\<close>

definition research ::
  "env \<Rightarrow> ResearcherAgent \<Rightarrow> pyval \<Rightarrow> run_state \<Rightarrow>
     (py_error + (string \<times> pyval) list) \<times> run_state" where
  "research E self rt s =
     (case create_tasks E self rt s of
        (Inl e, s1) \<Rightarrow> (Inl e, s1)
      | (Inr ts, s1) \<Rightarrow>
          (let crew = \<lparr>agents = [keyword_researcher self, search_analyst self,
                                  insights_compiler self],
                        tasks = ts, crew_verbose = True, process = Sequential\<rparr>;
               s2 = emit Kickoff (emit CrewCreated s1)
           in case kickoff E crew of
                None \<Rightarrow> (Inl StageExecutionError, s2)
              | Some result \<Rightarrow>
                  (case shape_results result s2 of (out, s3) \<Rightarrow> (Inr out, s3))))"

section \<open>\<open>run.py\<close>: the entry point\<close>

text \<open>The items of a dictionary, for \<open>InputSchema(**module_run.inputs)\<close>.\<close>

fun dict_items :: "pyval \<Rightarrow> kwargs" where
  "dict_items (PDict d) = d"
| "dict_items v = []"

definition run ::
  "env \<Rightarrow> AgentRunInput \<Rightarrow> (py_error + (string \<times> pyval) list) \<times> run_state" where
  "run E mr =
     (let (researcher, s1) = ResearcherAgent_init mr init_state;
          (validated, s2) =
            (if isinstance_dict (inputs mr) then
               (case InputSchema_init E (dict_items (inputs mr)) of
                  Inl e \<Rightarrow> (Inl e, emit Validation s1)
                | Inr i \<Rightarrow> (Inr (PInput i), emit Validation s1))
             else (Inr (inputs mr), s1))
      in case validated of
           Inl e \<Rightarrow> (Inl e, s2)
         | Inr input_params \<Rightarrow>
             (case getattr input_params ''research_topic'' of
                Inl e \<Rightarrow> (Inl e, s2)
              | Inr rt \<Rightarrow> research E researcher rt s2))"

section \<open>Notions the properties are stated with\<close>

text \<open>What the constructor of \<open>ResearcherAgent\<close> does, in order.\<close>

definition construction_events :: "event list" where
  "construction_events =
     [ToolCreated SerperDevTool, ToolCreated FileReadTool, ToolCreated FileWriteTool,
      LLMCreated the_llm,
      AgentCreated ''Expert Keyword Research Specialist'',
      AgentCreated ''Search Results Analyst'',
      AgentCreated ''Research Insights Compiler'']"

text \<open>The output files of the tasks created, in the order of their creation.\<close>

fun task_files :: "event list \<Rightarrow> string list" where
  "task_files [] = []"
| "task_files (TaskCreated p # es) = p # task_files es"
| "task_files (e # es) = task_files es"

text \<open>An event in which a tool client, the language model or a Role is constructed.\<close>

fun is_construction :: "event \<Rightarrow> bool" where
  "is_construction (ToolCreated t) = True"
| "is_construction (LLMCreated l) = True"
| "is_construction (AgentCreated r) = True"
| "is_construction e = False"

text \<open>
  A request record in which \<open>topic\<close> is missing: a dictionary without \<open>research_topic\<close>, or
  one whose \<open>research_topic\<close> is a dictionary without \<open>topic\<close>, or is anything else that
  is not a \<open>ResearchTopic\<close> (\<open>None\<close>, a string, a list and so on).
\<close>

definition topic_missing :: "pyval \<Rightarrow> bool" where
  "topic_missing v =
     (case v of
        PDict kw \<Rightarrow>
          (case map_of kw ''research_topic'' of
             None \<Rightarrow> True
           | Some (PDict d) \<Rightarrow> map_of d ''topic'' = None
           | Some (PTopic rt) \<Rightarrow> False
           | Some _ \<Rightarrow> True)
      | _ \<Rightarrow> False)"

text \<open>A calendar time with a four-digit year, as a reading of the current time is.\<close>

definition valid_datetime :: "datetime \<Rightarrow> bool" where
  "valid_datetime t =
     (1000 \<le> year t \<and> year t \<le> 9999 \<and> 1 \<le> month t \<and> month t \<le> 12 \<and>
      1 \<le> day t \<and> day t \<le> 31 \<and> hour t < 24 \<and> minute t < 60 \<and> second t < 60)"

definition is_digit :: "char \<Rightarrow> bool" where
  "is_digit c = (c \<in> set ''0123456789'')"

text \<open>The shape \<open>YYYYMMDD_HHMMSS\<close>: eight digits, an underscore, six digits.\<close>

definition timestamp_format :: "string \<Rightarrow> bool" where
  "timestamp_format ts =
     (length ts = 15 \<and> list_all is_digit (take 8 ts) \<and> ts ! 8 = CHR ''_'' \<and>
      list_all is_digit (drop 9 ts))"

section \<open>Example inputs\<close>

definition clock0 :: "nat \<Rightarrow> datetime" where
  "clock0 n = \<lparr>year = 2024, month = 3, day = 9, hour = 7, minute = 5, second = 42 + n\<rparr>"

definition result0 :: CrewOutput where
  "result0 = \<lparr>raw = ''narrow the search'',
              tasks_output = [''agents, autonomy'', ''no gaps'', ''narrow the search'']\<rparr>"

text \<open>An environment whose lax mode refuses everything and whose crew returns a result.\<close>

definition env0 :: env where
  "env0 = \<lparr>lax_str = (\<lambda>v. None), lax_int = (\<lambda>v. None), lax_bool = (\<lambda>v. None),
            str_other = (\<lambda>v. ''<object>''), now = clock0,
            kickoff = (\<lambda>c. Some result0)\<rparr>"

definition deployment0 :: AgentDeployment where
  "deployment0 =
     \<lparr>agent_config = \<lparr>llm_config = \<lparr>model = ''gpt-3.5-turbo'', config_temperature = 1 / 5\<rparr>\<rparr>\<rparr>"

definition topic0 :: ResearchTopic where
  "topic0 = \<lparr>topic = ''AI agents'', topic_context = None, depth = Some ''comprehensive'',
              research_objective = None, specific_focus = None\<rparr>"

definition kw0 :: kwargs where
  "kw0 = [(''research_topic'', PDict [(''topic'', PStr ''AI agents'')])]"

definition mr0 :: AgentRunInput where
  "mr0 = \<lparr>inputs = PDict kw0, agent_deployment = deployment0\<rparr>"

text \<open>\<open>isinstance(v, int)\<close>, for values that are not truth values.\<close>

fun is_int :: "pyval \<Rightarrow> bool" where
  "is_int (PInt n) = True"
| "is_int v = False"

text \<open>Further example inputs.\<close>

definition mr_empty_topic :: AgentRunInput where
  "mr_empty_topic =
     \<lparr>inputs = PDict [(''research_topic'', PDict [(''topic'', PStr [])])],
      agent_deployment = deployment0\<rparr>"

definition mr_no_topic :: AgentRunInput where
  "mr_no_topic =
     \<lparr>inputs = PDict [(''research_topic'', PDict [(''depth'', PStr ''brief'')])],
      agent_deployment = deployment0\<rparr>"

definition mr_empty_dict :: AgentRunInput where
  "mr_empty_dict = \<lparr>inputs = PDict [], agent_deployment = deployment0\<rparr>"


definition researcher0 :: ResearcherAgent where
  "researcher0 = fst (ResearcherAgent_init mr0 init_state)"

definition kw_zero :: kwargs where
  "kw_zero = [(''research_topic'', PDict [(''topic'', PStr ''AI agents'')]), (''max_sources'', PInt 0)]"

definition input0 :: InputSchema where
  "input0 = \<lparr>research_topic = topic0, max_sources = Some 5, include_citations = Some True\<rparr>"

section \<open>The steps of a run\<close>

lemma events_emit: "events (emit e s) = events s @ [e]"
  by (simp add: emit_def)

lemma clock_reads_emit: "clock_reads (emit e s) = clock_reads s"
  by (simp add: emit_def)

lemma setup_tools_eq:
  "setup_tools s = ((SerperDevTool, FileReadTool, FileWriteTool),
     s\<lparr>events := events s @ [ToolCreated SerperDevTool, ToolCreated FileReadTool, ToolCreated FileWriteTool]\<rparr>)"
  by (simp add: setup_tools_def emit_def)

lemma setup_agents_state:
  "setup_agents t s = (as, s') \<Longrightarrow> s' = s\<lparr>events := events s @ [LLMCreated the_llm,
      AgentCreated ''Expert Keyword Research Specialist'',
      AgentCreated ''Search Results Analyst'',
      AgentCreated ''Research Insights Compiler'']\<rparr>"
  by (auto simp add: setup_agents_def emit_def Let_def)

lemma setup_agents_llm:
  "setup_agents t s = ((kr, sa, ic), s') \<Longrightarrow> llm kr = the_llm \<and> llm sa = the_llm \<and> llm ic = the_llm"
  by (auto simp add: setup_agents_def Let_def)

lemma ResearcherAgent_init_state: "snd (ResearcherAgent_init mr s) = s\<lparr>events := events s @ construction_events\<rparr>"
  by (auto simp add: ResearcherAgent_init_def setup_tools_eq construction_events_def Let_def
        split: prod.splits dest!: setup_agents_state)

lemma getattr_error: "getattr v name = Inl e \<Longrightarrow> e = AttributeError"
  by (cases v) (auto simp: topic_attr_def input_attr_def split: if_splits option.splits)

lemma task_1_description_error: "task_1_description E rt = Inl e \<Longrightarrow> e = AttributeError"
  by (auto simp: task_1_description_def split: sum.splits dest: getattr_error)

lemma task_1_description_topic:
  "task_1_description E (PTopic rt) =
     Inr (description_1 (topic rt) (py_str E (opt_str (research_objective rt)))
            (py_str E (opt_str (specific_focus rt))))"
  by (simp add: task_1_description_def topic_attr_def)

text \<open>
  Every call of \<open>create_tasks\<close> raises: the f-string's \<open>AttributeError\<close>, or else the
  \<open>ValidationError\<close> of the first \<open>Task\<close>. So does every call of \<open>research\<close>.
\<close>

lemma create_tasks_raises:
  "create_tasks E self rt s =
     (Inl (case task_1_description E rt of Inl e \<Rightarrow> e | Inr d \<Rightarrow> ValidationError),
      \<lparr>events = events s @ [ClockRead], clock_reads = Suc (clock_reads s)\<rparr>)"
  by (simp add: create_tasks_def Task_init_def emit_def Let_def split: sum.splits)

lemma research_raises:
  "research E self rt s =
     (Inl (case task_1_description E rt of Inl e \<Rightarrow> e | Inr d \<Rightarrow> ValidationError),
      \<lparr>events = events s @ [ClockRead], clock_reads = Suc (clock_reads s)\<rparr>)"
  by (simp add: research_def create_tasks_raises)

lemma run_unfold:
  "run E mr =
     (if isinstance_dict (inputs mr) then
        (case InputSchema_init E (dict_items (inputs mr)) of
           Inl e \<Rightarrow> (Inl e, \<lparr>events = construction_events @ [Validation], clock_reads = 0\<rparr>)
         | Inr i \<Rightarrow> research E (fst (ResearcherAgent_init mr init_state)) (PTopic (research_topic i))
                     \<lparr>events = construction_events @ [Validation], clock_reads = 0\<rparr>)
      else
        (case getattr (inputs mr) ''research_topic'' of
           Inl e \<Rightarrow> (Inl e, \<lparr>events = construction_events, clock_reads = 0\<rparr>)
         | Inr rt \<Rightarrow> research E (fst (ResearcherAgent_init mr init_state)) rt
                     \<lparr>events = construction_events, clock_reads = 0\<rparr>))"
proof -
  obtain self s1 where init: "ResearcherAgent_init mr init_state = (self, s1)"
    by (cases "ResearcherAgent_init mr init_state")
  have s1: "s1 = \<lparr>events = construction_events, clock_reads = 0\<rparr>"
    using ResearcherAgent_init_state [of mr init_state] init by (simp add: init_state_def)
  show ?thesis
    by (simp add: run_def init s1 emit_def input_attr_def split: sum.splits)
qed

subsection \<open>Validation raises nothing but \<open>ValidationError\<close>\<close>

lemma validate_str_error: "validate_str E v = Inl e \<Longrightarrow> e = ValidationError"
  by (auto simp: validate_str_def split: pyval.splits option.splits)

lemma validate_int_error: "validate_int E v = Inl e \<Longrightarrow> e = ValidationError"
  by (auto simp: validate_int_def split: pyval.splits option.splits)

lemma validate_bool_error: "validate_bool E v = Inl e \<Longrightarrow> e = ValidationError"
  by (auto simp: validate_bool_def split: pyval.splits option.splits)

lemma required_str_error:
  "field_required kw n (validate_str E) = Inl e \<Longrightarrow> e = ValidationError"
  by (auto simp: field_required_def split: option.splits dest: validate_str_error)

lemma optional_str_error:
  "field_default kw n d (validate_optional (validate_str E)) = Inl e \<Longrightarrow> e = ValidationError"
  by (auto simp: field_default_def validate_optional_def split: option.splits pyval.splits sum.splits
        dest: validate_str_error)

lemma optional_int_error:
  "field_default kw n d (validate_optional (validate_int E)) = Inl e \<Longrightarrow> e = ValidationError"
  by (auto simp: field_default_def validate_optional_def split: option.splits pyval.splits sum.splits
        dest: validate_int_error)

lemma optional_bool_error:
  "field_default kw n d (validate_optional (validate_bool E)) = Inl e \<Longrightarrow> e = ValidationError"
  by (auto simp: field_default_def validate_optional_def split: option.splits pyval.splits sum.splits
        dest: validate_bool_error)

lemma ResearchTopic_init_error: "ResearchTopic_init E kw = Inl e \<Longrightarrow> e = ValidationError"
  unfolding ResearchTopic_init_def
  by (auto split: sum.splits dest: required_str_error optional_str_error)

lemma validate_ResearchTopic_error: "validate_ResearchTopic E v = Inl e \<Longrightarrow> e = ValidationError"
  by (auto simp: validate_ResearchTopic_def split: pyval.splits dest: ResearchTopic_init_error)

lemma required_topic_error:
  "field_required kw n (validate_ResearchTopic E) = Inl e \<Longrightarrow> e = ValidationError"
  by (auto simp: field_required_def split: option.splits dest: validate_ResearchTopic_error)

lemma InputSchema_init_error: "InputSchema_init E kw = Inl e \<Longrightarrow> e = ValidationError"
  unfolding InputSchema_init_def
  by (auto split: sum.splits dest: required_topic_error optional_int_error optional_bool_error)

subsection \<open>The four ways through \<open>run\<close>\<close>

lemma run_cases [case_names invalid valid no_attr object]:
  obtains
    "isinstance_dict (inputs mr)"
      and "InputSchema_init E (dict_items (inputs mr)) = Inl ValidationError"
      and "run E mr = (Inl ValidationError,
             \<lparr>events = construction_events @ [Validation], clock_reads = 0\<rparr>)"
  | i where "isinstance_dict (inputs mr)"
      and "InputSchema_init E (dict_items (inputs mr)) = Inr i"
      and "run E mr = (Inl ValidationError,
             \<lparr>events = construction_events @ [Validation, ClockRead], clock_reads = 1\<rparr>)"
  | "\<not> isinstance_dict (inputs mr)"
      and "getattr (inputs mr) ''research_topic'' = Inl AttributeError"
      and "run E mr = (Inl AttributeError, \<lparr>events = construction_events, clock_reads = 0\<rparr>)"
  | rt where "\<not> isinstance_dict (inputs mr)"
      and "getattr (inputs mr) ''research_topic'' = Inr rt"
      and "run E mr =
             (Inl (case task_1_description E rt of Inl e \<Rightarrow> e | Inr d \<Rightarrow> ValidationError),
              \<lparr>events = construction_events @ [ClockRead], clock_reads = 1\<rparr>)"
proof (cases "isinstance_dict (inputs mr)")
  case True
  show thesis
  proof (cases "InputSchema_init E (dict_items (inputs mr))")
    case (Inl e)
    with True InputSchema_init_error [of E _ e] that(1) show thesis
      by (simp add: run_unfold)
  next
    case (Inr i)
    with True that(2) [of i] show thesis
      by (simp add: run_unfold research_raises task_1_description_topic)
  qed
next
  case False
  show thesis
  proof (cases "getattr (inputs mr) ''research_topic''")
    case (Inl e)
    with False getattr_error [of _ _ e] that(3) show thesis
      by (simp add: run_unfold)
  next
    case (Inr rt)
    with False that(4) [of rt] show thesis
      by (simp add: run_unfold research_raises)
  qed
qed

text \<open>No run returns, and no run creates a task or reaches \<open>crew.kickoff()\<close>.\<close>

lemma run_always_raises: "isl (fst (run E mr))"
  by (cases rule: run_cases [of mr E]) simp_all

lemma run_no_stage:
  "Kickoff \<notin> set (events (snd (run E mr))) \<and> task_files (events (snd (run E mr))) = []"
  by (cases rule: run_cases [of mr E]) (simp_all add: construction_events_def)

subsection \<open>The \<open>try\<close> block\<close>


subsection \<open>Validation of a request without a topic\<close>

lemma topic_missing_invalid:
  assumes "topic_missing v"
  shows "isinstance_dict v \<and> InputSchema_init E (dict_items v) = Inl ValidationError"
proof -
  from assms obtain kw where v: "v = PDict kw"
    by (cases v) (simp_all add: topic_missing_def)
  show ?thesis
  proof (cases "map_of kw ''research_topic''")
    case None
    with v show ?thesis
      by (simp add: InputSchema_init_def field_required_def)
  next
    case (Some rt)
    have "validate_ResearchTopic E rt = Inl ValidationError"
    proof (cases rt)
      case (PDict d)
      with assms v Some have "map_of d ''topic'' = None"
        by (simp add: topic_missing_def)
      then have "ResearchTopic_init E d = Inl ValidationError"
        by (simp add: ResearchTopic_init_def field_required_def)
      with PDict show ?thesis by (simp add: validate_ResearchTopic_def)
    next
      case (PTopic t)
      with assms v Some show ?thesis by (simp add: topic_missing_def)
    qed (simp_all add: validate_ResearchTopic_def)
    with v Some show ?thesis
      by (simp add: InputSchema_init_def field_required_def)
  qed
qed

subsection \<open>Inputs that are not a dictionary are not validated\<close>

lemma py_str_lax: "py_str (E\<lparr>lax_str := f, lax_int := g, lax_bool := h\<rparr>) v = py_str E v"
  by (cases v) simp_all

lemma task_1_description_lax:
  "task_1_description (E\<lparr>lax_str := f, lax_int := g, lax_bool := h\<rparr>) rt = task_1_description E rt"
  by (simp add: task_1_description_def py_str_lax split: sum.splits)

lemma non_dict_no_schema_validation:
  assumes "\<not> isinstance_dict (inputs mr)"
  shows "Validation \<notin> set (events (snd (run E mr))) \<and>
         run (E\<lparr>lax_str := f, lax_int := g, lax_bool := h\<rparr>) mr = run E mr"
proof -
  have "Validation \<notin> set (events (snd (run E mr)))"
    using assms
    by (cases rule: run_cases [of mr E]) (simp_all add: construction_events_def)
  moreover have "run (E\<lparr>lax_str := f, lax_int := g, lax_bool := h\<rparr>) mr = run E mr"
    using assms
    by (simp add: run_unfold research_raises task_1_description_lax split: sum.splits)
  ultimately show ?thesis by simp
qed

subsection \<open>The description of the first task\<close>

lemma description_1_topic: "sublist t (description_1 t ro sf)"
proof -
  have "\<exists>ps ss. description_1 t ro sf = ps @ t @ ss"
    unfolding description_1_def by (metis append.assoc)
  then show ?thesis by (simp add: sublist_def)
qed

lemma description_1_objective:
  \<open>sublist (''RESEARCH OBJECTIVE: "'' @ ro @ ''"'') (description_1 t ro sf)\<close>
proof -
  have \<open>\<exists>ps ss. description_1 t ro sf = ps @ (''RESEARCH OBJECTIVE: "'' @ ro @ ''"'') @ ss\<close>
    unfolding description_1_def
    by (intro exI [of _ \<open>''\<newline>'' @
     ''                Analyze the following topic and identify potential keywords and search phrases:\<newline>'' @
     ''                TOPIC: "'' @ t @ ''"\<newline>'' @
     ''                ''\<close>] exI [of _ \<open>''\<newline>'' @
     ''                SPECIFIC FOCUS: "'' @ sf @ ''"\<newline>'' @
     ''                \<newline>'' @
     ''                1. Break down the topic into main concepts\<newline>'' @
     ''                2. Generate primary keywords for each concept\<newline>'' @
     ''                3. Identify related terms and synonyms\<newline>'' @
     ''                4. Consider different search intents\<newline>'' @
     ''                5. List at least 5 potential search phrases\<newline>'' @
     ''            ''\<close>]) simp
  then show ?thesis by (simp only: sublist_def)
qed

lemma description_1_focus:
  \<open>sublist (''SPECIFIC FOCUS: "'' @ sf @ ''"'') (description_1 t ro sf)\<close>
proof -
  have \<open>\<exists>ps ss. description_1 t ro sf = ps @ (''SPECIFIC FOCUS: "'' @ sf @ ''"'') @ ss\<close>
    unfolding description_1_def
    by (intro exI [of _ \<open>''\<newline>'' @
     ''                Analyze the following topic and identify potential keywords and search phrases:\<newline>'' @
     ''                TOPIC: "'' @ t @ ''"\<newline>'' @
     ''                RESEARCH OBJECTIVE: "'' @ ro @ ''"\<newline>'' @
     ''                ''\<close>] exI [of _ \<open>''\<newline>'' @
     ''                \<newline>'' @
     ''                1. Break down the topic into main concepts\<newline>'' @
     ''                2. Generate primary keywords for each concept\<newline>'' @
     ''                3. Identify related terms and synonyms\<newline>'' @
     ''                4. Consider different search intents\<newline>'' @
     ''                5. List at least 5 potential search phrases\<newline>'' @
     ''            ''\<close>]) simp
  then show ?thesis by (simp only: sublist_def)
qed

subsection \<open>The timestamp\<close>

lemma is_digit_digit: "d < 10 \<Longrightarrow> is_digit (digit d)"
proof -
  assume "d < 10"
  then have "d \<in> {0, 1, 2, 3, 4, 5, 6, 7, 8, 9}" by auto
  then show ?thesis
    by (auto simp: is_digit_def digit_def)
qed

lemma dec_small: "n < 10 \<Longrightarrow> dec n = [digit n]"
  by (subst dec.simps) simp

lemma dec_step: "10 \<le> n \<Longrightarrow> dec n = dec (n div 10) @ [digit (n mod 10)]"
  by (subst dec.simps) simp

lemma zfill_2: "n < 100 \<Longrightarrow> zfill 2 (dec n) = [digit (n div 10), digit (n mod 10)]"
proof (cases "n < 10")
  case True
  then show ?thesis by (simp add: dec_small zfill_def digit_def)
next
  case False
  assume "n < 100"
  with False have "n div 10 < 10" by simp
  with False show ?thesis by (simp add: dec_step dec_small zfill_def)
qed

lemma dec_4:
  assumes "1000 \<le> n" and "n \<le> 9999"
  shows "dec n =
           [digit (n div 1000), digit (n div 100 mod 10), digit (n div 10 mod 10), digit (n mod 10)]"
proof -
  have a: "dec n = dec (n div 10) @ [digit (n mod 10)]"
    using assms by (simp add: dec_step)
  have b: "dec (n div 10) = dec (n div 100) @ [digit (n div 10 mod 10)]"
    using assms dec_step [of "n div 10"] by (simp add: div_mult2_eq [symmetric])
  have c: "dec (n div 100) = dec (n div 1000) @ [digit (n div 100 mod 10)]"
    using assms dec_step [of "n div 100"] by (simp add: div_mult2_eq [symmetric])
  have d: "dec (n div 1000) = [digit (n div 1000)]"
    using assms by (simp add: dec_small)
  show ?thesis by (simp add: a b c d)
qed

lemma strftime_valid:
  assumes "valid_datetime t"
  shows "strftime t =
     [digit (year t div 1000), digit (year t div 100 mod 10), digit (year t div 10 mod 10),
      digit (year t mod 10), digit (month t div 10), digit (month t mod 10),
      digit (day t div 10), digit (day t mod 10), CHR ''_'',
      digit (hour t div 10), digit (hour t mod 10), digit (minute t div 10),
      digit (minute t mod 10), digit (second t div 10), digit (second t mod 10)]"
  using assms by (simp add: strftime_def valid_datetime_def zfill_2 dec_4)

lemma strftime_format:
  assumes "valid_datetime t"
  shows "timestamp_format (strftime t)"
proof -
  from assms have "year t div 1000 < 10" and "month t div 10 < 10" and "day t div 10 < 10"
    and "hour t div 10 < 10" and "minute t div 10 < 10" and "second t div 10 < 10"
    unfolding valid_datetime_def by arith+
  then show ?thesis
    by (simp add: strftime_valid [OF assms] timestamp_format_def is_digit_digit)
qed

section \<open>The result of a run\<close>




section \<open>Validation of the request\<close>

text \<open>
  Claim C3, as amended. For every request record in which \<open>topic\<close> is missing, the run fails
  with \<open>ValidationError\<close>, and does so before any stage executes: the run ends with the
  validation, no clock read, no task created, \<open>crew.kickoff()\<close> not called.
\<close>

theorem missing_topic_rejected_before_stages:
  assumes "topic_missing (inputs mr)"
  shows "fst (run E mr) = Inl ValidationError \<and>
         events (snd (run E mr)) = construction_events @ [Validation] \<and>
         clock_reads (snd (run E mr)) = 0 \<and>
         task_files (events (snd (run E mr))) = [] \<and>
         Kickoff \<notin> set (events (snd (run E mr)))"
proof -
  from topic_missing_invalid [OF assms, of E]
  have "run E mr = (Inl ValidationError,
          \<lparr>events = construction_events @ [Validation], clock_reads = 0\<rparr>)"
    by (simp add: run_unfold)
  then show ?thesis by (simp add: construction_events_def)
qed

text \<open>The theorem of C3 at a request whose \<open>research_topic\<close> has a depth and no topic.\<close>

theorem missing_topic_rejected_before_stages_witness:
  "topic_missing (inputs mr_no_topic) \<and> fst (run env0 mr_no_topic) = Inl ValidationError \<and>
   events (snd (run env0 mr_no_topic)) = construction_events @ [Validation] \<and>
   Kickoff \<notin> set (events (snd (run env0 mr_no_topic)))"
proof -
  have h: "topic_missing (inputs mr_no_topic)" by code_simp
  from missing_topic_rejected_before_stages [OF h, of env0] h show ?thesis by blast
qed

text \<open>
  Claim C3 as stated fails for the empty string: the validation of a request whose \<open>topic\<close>
  is \<open>""\<close> succeeds, with that topic.
\<close>

theorem empty_topic_accepted:
  "InputSchema_init env0 (dict_items (inputs mr_empty_topic)) =
     Inr \<lparr>research_topic = \<lparr>topic = [], topic_context = None, depth = Some ''comprehensive'',
                              research_objective = None, specific_focus = None\<rparr>,
          max_sources = Some 5, include_citations = Some True\<rparr>"
  by code_simp

text \<open>
  Claim C7, as amended. In a request that is otherwise valid, \<open>max_sources\<close> is accepted as
  it is when it is an integer, of any sign; it is 5 when absent; and the request is rejected
  with \<open>ValidationError\<close> when \<open>max_sources\<close> is neither \<open>None\<close> nor an integer nor a value
  that lax mode turns into one.
\<close>

theorem max_sources_accepts_any_integer:
  assumes "InputSchema_init E kw = Inr i"
  shows "InputSchema_init E (AList.update ''max_sources'' (PInt n) kw) =
           Inr (i\<lparr>max_sources := Some n\<rparr>) \<and>
         InputSchema_init E (AList.delete ''max_sources'' kw) = Inr (i\<lparr>max_sources := Some 5\<rparr>) \<and>
         (v \<noteq> PNone \<and> \<not> is_int v \<and> lax_int E v = None \<longrightarrow>
            InputSchema_init E (AList.update ''max_sources'' v kw) = Inl ValidationError)"
proof -
  from assms obtain rt ms ic where
    rt: "field_required kw ''research_topic'' (validate_ResearchTopic E) = Inr rt" and
    ic: "field_default kw ''include_citations'' (Some True)
           (validate_optional (validate_bool E)) = Inr ic" and
    i: "i = \<lparr>research_topic = rt, max_sources = ms, include_citations = ic\<rparr>"
    by (auto simp: InputSchema_init_def split: sum.splits)
  have rt_upd: "field_required (AList.update ''max_sources'' w kw) ''research_topic''
      (validate_ResearchTopic E) = Inr rt" for w
    using rt by (simp add: field_required_def update_conv')
  have ic_upd: "field_default (AList.update ''max_sources'' w kw) ''include_citations'' (Some True)
      (validate_optional (validate_bool E)) = Inr ic" for w
    using ic by (simp add: field_default_def update_conv')
  have rt_del: "field_required (AList.delete ''max_sources'' kw) ''research_topic''
      (validate_ResearchTopic E) = Inr rt"
    using rt by (simp add: field_required_def delete_conv')
  have ic_del: "field_default (AList.delete ''max_sources'' kw) ''include_citations'' (Some True)
      (validate_optional (validate_bool E)) = Inr ic"
    using ic by (simp add: field_default_def delete_conv')
  have ms_int: "field_default (AList.update ''max_sources'' (PInt n) kw) ''max_sources'' (Some 5)
      (validate_optional (validate_int E)) = Inr (Some n)"
    by (simp add: field_default_def update_conv' validate_optional_def validate_int_def)
  have ms_del: "field_default (AList.delete ''max_sources'' kw) ''max_sources'' (Some 5)
      (validate_optional (validate_int E)) = Inr (Some 5)"
    by (simp add: field_default_def delete_conv')
  have ms_bad: "field_default (AList.update ''max_sources'' v kw) ''max_sources'' (Some 5)
      (validate_optional (validate_int E)) = Inl ValidationError"
    if "v \<noteq> PNone" "\<not> is_int v" "lax_int E v = None"
    using that
    by (cases v) (simp_all add: field_default_def update_conv' validate_optional_def validate_int_def)
  show ?thesis
    unfolding InputSchema_init_def
    by (simp add: rt_upd ic_upd rt_del ic_del ms_int ms_del ms_bad i)
qed

text \<open>The theorem of C7 at the example request, for \<open>-3\<close> and for an empty list.\<close>

theorem max_sources_accepts_any_integer_witness:
  "InputSchema_init env0 kw0 = Inr input0 \<and>
   InputSchema_init env0 (AList.update ''max_sources'' (PInt (- 3)) kw0) =
     Inr (input0\<lparr>max_sources := Some (- 3)\<rparr>) \<and>
   InputSchema_init env0 (AList.delete ''max_sources'' kw0) = Inr input0 \<and>
   InputSchema_init env0 (AList.update ''max_sources'' (PList []) kw0) = Inl ValidationError"
proof -
  have h: "InputSchema_init env0 kw0 = Inr input0" by code_simp
  have l: "PList [] \<noteq> PNone \<and> \<not> is_int (PList []) \<and> lax_int env0 (PList []) = None"
    by (simp add: env0_def)
  from max_sources_accepts_any_integer [OF h, of "- 3" "PList []"] h l show ?thesis
    by (simp add: input0_def)
qed

text \<open>Claim C7 as stated fails: a request with \<open>max_sources = 0\<close> is validated.\<close>

theorem max_sources_zero_accepted:
  "InputSchema_init env0 kw_zero =
     Inr \<lparr>research_topic = topic0, max_sources = Some 0, include_citations = Some True\<rparr>"
  by code_simp

section \<open>The pipeline\<close>

text \<open>
  Claim C4, as amended. For every \<open>ResearchTopic\<close> whose \<open>research_objective\<close> and
  \<open>specific_focus\<close> are both absent, the description that \<open>create_tasks\<close> builds for the
  first task contains the topic text, and each absent field is rendered as the word \<open>None\<close>
  between its quotes.
\<close>

theorem absent_fields_render_as_None:
  assumes \<open>research_objective rt = None\<close> and \<open>specific_focus rt = None\<close>
  shows \<open>task_1_description E (PTopic rt) = Inr (description_1 (topic rt) ''None'' ''None'') \<and>
         sublist (topic rt) (description_1 (topic rt) ''None'' ''None'') \<and>
         sublist ''RESEARCH OBJECTIVE: "None"'' (description_1 (topic rt) ''None'' ''None'') \<and>
         sublist ''SPECIFIC FOCUS: "None"'' (description_1 (topic rt) ''None'' ''None'')\<close>
proof -
  have d: "task_1_description E (PTopic rt) = Inr (description_1 (topic rt) ''None'' ''None'')"
    using assms by (simp add: task_1_description_topic opt_str_def)
  from description_1_objective [of "''None''" "topic rt" "''None''"]
    description_1_focus [of "''None''" "topic rt" "''None''"]
    description_1_topic [of "topic rt" "''None''" "''None''"] d
  show ?thesis by simp
qed

text \<open>The theorem of C4 at the example topic.\<close>

theorem absent_fields_render_as_None_witness:
  \<open>research_objective topic0 = None \<and> specific_focus topic0 = None \<and>
   task_1_description env0 (PTopic topic0) = Inr (description_1 ''AI agents'' ''None'' ''None'') \<and>
   sublist ''AI agents'' (description_1 ''AI agents'' ''None'' ''None'') \<and>
   sublist ''RESEARCH OBJECTIVE: "None"'' (description_1 ''AI agents'' ''None'' ''None'')\<close>
proof -
  have h1: "research_objective topic0 = None" and h2: "specific_focus topic0 = None"
    by (simp_all add: topic0_def)
  from absent_fields_render_as_None [OF h1 h2, of env0] h1 h2
  show ?thesis by (simp add: topic0_def)
qed

text \<open>
  Claim C4 as stated fails: the description built for the example topic, which has neither
  field, contains \<open>None\<close>.
\<close>

theorem description_contains_None:
  "sublist ''None'' (projr (task_1_description env0 (PTopic topic0)))"
  by code_simp

text \<open>
  Claim C5, at the example topic: \<open>create_tasks\<close> raises \<open>ValidationError\<close> at its first
  \<open>Task\<close> and has created no task, where the claim has a pipeline of three.
\<close>

theorem pipeline_not_built:
  "fst (create_tasks env0 researcher0 (PTopic topic0) init_state) = Inl ValidationError \<and>
   task_files (events (snd (create_tasks env0 researcher0 (PTopic topic0) init_state))) = []"
  by code_simp

text \<open>
  Claim C6, at the example request: the run reads the clock once, then raises
  \<open>ValidationError\<close> with no task created, so that no stage has an output file, where the
  claim has three.
\<close>

theorem no_artifact_paths:
  "fst (run env0 mr0) = Inl ValidationError \<and>
   events (snd (run env0 mr0)) = construction_events @ [Validation, ClockRead] \<and>
   clock_reads (snd (run env0 mr0)) = 1 \<and>
   task_files (events (snd (run env0 mr0))) = []"
  by code_simp

section \<open>Construction of the tools and Roles\<close>

text \<open>
  Claim C8, at a run input whose deployment descriptor asks for \<open>gpt-3.5-turbo\<close> at
  temperature 0.2: the descriptor's configuration is stored on the agent object, and the
  three Roles are constructed with one language model, \<open>gpt-4o\<close> at temperature 0.7.
\<close>

theorem roles_use_fixed_llm_not_deployment_config:
  "llm_config (agent_config (agent_deployment mr0)) =
     \<lparr>model = ''gpt-3.5-turbo'', config_temperature = 1 / 5\<rparr> \<and>
   self_llm_config researcher0 = \<lparr>model = ''gpt-3.5-turbo'', config_temperature = 1 / 5\<rparr> \<and>
   llm (keyword_researcher researcher0) = \<lparr>model_name = ''gpt-4o'', temperature = 7 / 10\<rparr> \<and>
   llm (search_analyst researcher0) = \<lparr>model_name = ''gpt-4o'', temperature = 7 / 10\<rparr> \<and>
   llm (insights_compiler researcher0) = \<lparr>model_name = ''gpt-4o'', temperature = 7 / 10\<rparr>"
  by code_simp

text \<open>
  Claim C9, as amended. In every run the tool clients, the language model and the three
  Roles are constructed first, before the request is validated, and nothing is constructed
  after that; a run whose request fails validation has them constructed, raises
  \<open>ValidationError\<close> and does nothing more than the validation.
\<close>

theorem construction_precedes_validation:
  "\<exists>rest. events (snd (run E mr)) = construction_events @ rest \<and>
      list_all (\<lambda>e. \<not> is_construction e) rest \<and>
      (isinstance_dict (inputs mr) \<and> isl (InputSchema_init E (dict_items (inputs mr))) \<longrightarrow>
         fst (run E mr) = Inl ValidationError \<and> rest = [Validation])"
proof (cases rule: run_cases [of mr E])
  case invalid
  then show ?thesis by simp
next
  case (valid i)
  then show ?thesis by simp
next
  case no_attr
  then show ?thesis by simp
next
  case (object rt)
  then show ?thesis by simp
qed

text \<open>The theorem of C9 at an empty request.\<close>

theorem construction_precedes_validation_witness:
  "isinstance_dict (inputs mr_empty_dict) \<and>
   isl (InputSchema_init env0 (dict_items (inputs mr_empty_dict))) \<and>
   fst (run env0 mr_empty_dict) = Inl ValidationError \<and>
   events (snd (run env0 mr_empty_dict)) = construction_events @ [Validation]"
proof -
  have h: "isinstance_dict (inputs mr_empty_dict) \<and>
      isl (InputSchema_init env0 (dict_items (inputs mr_empty_dict)))"
    by code_simp
  from construction_precedes_validation [of env0 mr_empty_dict] h show ?thesis by auto
qed

text \<open>
  Claim C9 as stated fails: the empty request fails validation, and the search tool and a
  Role have been constructed.
\<close>

theorem invalid_request_constructs_tools_and_roles:
  "fst (run env0 mr_empty_dict) = Inl ValidationError \<and>
   ToolCreated SerperDevTool \<in> set (events (snd (run env0 mr_empty_dict))) \<and>
   AgentCreated ''Search Results Analyst'' \<in> set (events (snd (run env0 mr_empty_dict)))"
  by code_simp

section \<open>Inputs that are not a dictionary\<close>


end
